theory Spec2Isabelle
  imports Main
begin

section \<open>The command-line client (internal/opendydns-cli)\<close>

subsection \<open>Data transfer objects of package proto\<close>

text \<open>
  The declarations of package \<open>proto\<close> are not among the sources at hand. The fields
  below are the ones the client and the command-line tool read and write
  (\<open>err.Message\<close>, \<open>token.Token\<close>, \<open>alias.Domain\<close>, \<open>alias.Value\<close>,
  \<open>Email\<close>, \<open>Password\<close>), together with the \<open>host\<close> field the specification lists in
  the alias body \<open>{host, domain, value}\<close>. The fields of the DTOs carry a prefix, because the
  database rows further down use the same Go field names.
\<close>

record ErrorDto =
  Message :: string

record TokenDto =
  Token :: string

record CredentialsDto =
  credEmail :: string
  credPassword :: string

record AliasDto =
  dtoHost :: string
  dtoDomain :: string
  dtoValue :: string

subsection \<open>The HTTP client library, as far as the client uses it\<close>

text \<open>
  A JSON body is one of the DTO shapes the daemon and the client exchange. A request
  carries, beside what goes over the wire, the two optional targets of the library:
  \<open>SetResult\<close> registers where a successful body is decoded to, \<open>SetError\<close> where the
  body of an error response is decoded to. A call that registers no target decodes nothing.
\<close>

datatype payload =
    NoBody
  | CredentialsBody CredentialsDto
  | AliasBody AliasDto
  | AliasesBody "AliasDto list"
  | TokenBody TokenDto
  | ErrorBody ErrorDto

record Request =
  ReqMethod :: string
  ReqURL :: string
  ReqAuthScheme :: string
  ReqAuthToken :: string
  ReqBody :: payload
  ResultTarget :: bool
  ErrorTarget :: bool

record Response =
  StatusCode :: nat
  RespBody :: payload

text \<open>The remote side: any function from requests to responses; \<open>None\<close> is a transport
  failure (the client discards it with \<open>_, _ =\<close>).\<close>

type_synonym server = "Request \<Rightarrow> Response option"

record Client =
  HostURL :: string
  AuthScheme :: string

definition NewClient :: "string \<Rightarrow> Client" where
  "NewClient baseUrl = \<lparr>HostURL = baseUrl, AuthScheme = ''Bearer''\<rparr>"

definition R :: "Client \<Rightarrow> Request" where
  "R c = \<lparr>ReqMethod = '''', ReqURL = HostURL c, ReqAuthScheme = AuthScheme c,
           ReqAuthToken = '''', ReqBody = NoBody, ResultTarget = False, ErrorTarget = False\<rparr>"

definition SetAuthToken :: "string \<Rightarrow> Request \<Rightarrow> Request" where
  "SetAuthToken t r = r\<lparr>ReqAuthToken := t\<rparr>"

definition SetBody :: "payload \<Rightarrow> Request \<Rightarrow> Request" where
  "SetBody b r = r\<lparr>ReqBody := b\<rparr>"

definition SetResult :: "Request \<Rightarrow> Request" where
  "SetResult r = r\<lparr>ResultTarget := True\<rparr>"

definition SetError :: "Request \<Rightarrow> Request" where
  "SetError r = r\<lparr>ErrorTarget := True\<rparr>"

text \<open>\<open>Get\<close>, \<open>Post\<close> and \<open>Delete\<close>: the request goes out with its method and the path
  appended to the host URL; the pair returned is the request as sent and the answer.\<close>

definition Execute :: "server \<Rightarrow> string \<Rightarrow> string \<Rightarrow> Request \<Rightarrow> Request \<times> Response option" where
  "Execute srv m path r =
     (let r' = r\<lparr>ReqMethod := m, ReqURL := ReqURL r @ path\<rparr> in (r', srv r'))"

definition IsSuccess :: "Response \<Rightarrow> bool" where
  "IsSuccess rs = (199 < StatusCode rs \<and> StatusCode rs < 300)"

definition IsError :: "Response \<Rightarrow> bool" where
  "IsError rs = (399 < StatusCode rs)"

text \<open>Decoding after the call: a body is decoded into the result target only for a
  success status, into the error target only for an error status, and only when the target
  was registered on the request. A body of another shape leaves the target as it was.\<close>

definition boundError :: "Request \<Rightarrow> Response option \<Rightarrow> ErrorDto \<Rightarrow> ErrorDto" where
  "boundError r resp err =
     (case resp of
        None \<Rightarrow> err
      | Some rs \<Rightarrow>
          if ErrorTarget r \<and> IsError rs
          then (case RespBody rs of ErrorBody e \<Rightarrow> e | _ \<Rightarrow> err)
          else err)"

definition boundResult :: "(payload \<Rightarrow> 'a option) \<Rightarrow> Request \<Rightarrow> Response option \<Rightarrow> 'a \<Rightarrow> 'a" where
  "boundResult decode r resp res =
     (case resp of
        None \<Rightarrow> res
      | Some rs \<Rightarrow>
          if ResultTarget r \<and> IsSuccess rs \<and> StatusCode rs \<noteq> 204
          then (case decode (RespBody rs) of Some v \<Rightarrow> v | None \<Rightarrow> res)
          else res)"

fun asToken :: "payload \<Rightarrow> TokenDto option" where
  "asToken (TokenBody t) = Some t"
| "asToken _ = None"

fun asAlias :: "payload \<Rightarrow> AliasDto option" where
  "asAlias (AliasBody a) = Some a"
| "asAlias _ = None"

fun asAliases :: "payload \<Rightarrow> AliasDto list option" where
  "asAliases (AliasesBody as) = Some as"
| "asAliases _ = None"

subsection \<open>client.go: the API client\<close>

text \<open>Every method returns, beside its Go results, the list of the requests it sent.\<close>

definition nonNilError :: "ErrorDto \<Rightarrow> ErrorDto option" where
  "nonNilError err = (if Message err = '''' then None else Some err)"

definition Authenticate_client ::
  "server \<Rightarrow> Client \<Rightarrow> CredentialsDto \<Rightarrow> (TokenDto \<times> ErrorDto option) \<times> Request list" where
  "Authenticate_client srv c cred =
     (let result = \<lparr>Token = ''''\<rparr>;
          err = \<lparr>Message = ''''\<rparr>;
          (rq, resp) = Execute srv ''POST'' ''/sessions''
                         (SetError (SetResult (SetBody (CredentialsBody cred) (R c))))
      in ((boundResult asToken rq resp result, nonNilError (boundError rq resp err)), [rq]))"

definition GetAliases_client ::
  "server \<Rightarrow> Client \<Rightarrow> TokenDto \<Rightarrow> (AliasDto list \<times> ErrorDto option) \<times> Request list" where
  "GetAliases_client srv c token =
     (let result = [];
          err = \<lparr>Message = ''''\<rparr>;
          (rq, resp) = Execute srv ''GET'' ''/aliases''
                         (SetError (SetResult (SetAuthToken (Token token) (R c))))
      in ((boundResult asAliases rq resp result, nonNilError (boundError rq resp err)), [rq]))"

definition RegisterAlias_client ::
  "server \<Rightarrow> Client \<Rightarrow> TokenDto \<Rightarrow> AliasDto \<Rightarrow> (AliasDto \<times> ErrorDto option) \<times> Request list" where
  "RegisterAlias_client srv c token alias =
     (let result = \<lparr>dtoHost = '''', dtoDomain = '''', dtoValue = ''''\<rparr>;
          err = \<lparr>Message = ''''\<rparr>;
          (rq, resp) = Execute srv ''POST'' ''/aliases''
                         (SetError (SetResult (SetBody (AliasBody alias)
                            (SetAuthToken (Token token) (R c)))))
      in ((boundResult asAlias rq resp result, nonNilError (boundError rq resp err)), [rq]))"

definition DeleteAlias_client ::
  "server \<Rightarrow> Client \<Rightarrow> TokenDto \<Rightarrow> string \<Rightarrow> ErrorDto option \<times> Request list" where
  "DeleteAlias_client srv c token name =
     (let err = \<lparr>Message = ''''\<rparr>;
          (rq, resp) = Execute srv ''DELETE'' (''/aliases/'' @ name)
                         (SetAuthToken (Token token) (R c))
      in (nonNilError (boundError rq resp err), [rq]))"

subsection \<open>The command-line tool\<close>

record Config =
  APIAddr :: string
  cfgToken :: string

record OpenDYDNSCLI =
  conf :: Config
  confPath :: string

datatype cli_error = Errorf string | ApiError ErrorDto

definition getToken :: "OpenDYDNSCLI \<Rightarrow> cli_error + TokenDto" where
  "getToken odc =
     (if cfgToken (conf odc) = '''' then Inl (Errorf ''not logged in'')
      else Inr \<lparr>Token = cfgToken (conf odc)\<rparr>)"

definition getRemoteIp :: "OpenDYDNSCLI \<Rightarrow> cli_error + string" where
  "getRemoteIp odc = Inr ''127.0.0.1''"

text \<open>\<open>add\<close>: the argument list stands for \<open>c.Args()\<close>; the log line of the success path
  is not modelled. The result is the returned error (\<open>None\<close> for \<open>nil\<close>) and the requests
  that went out.\<close>

definition add :: "server \<Rightarrow> OpenDYDNSCLI \<Rightarrow> string list \<Rightarrow> cli_error option \<times> Request list" where
  "add srv odc args =
     (case args of
        [] \<Rightarrow> (Some (Errorf ''missing ALIAS''), [])
      | name # _ \<Rightarrow>
          (let apiClient = NewClient (APIAddr (conf odc)) in
           case getToken odc of
             Inl e \<Rightarrow> (Some e, [])
           | Inr token \<Rightarrow>
               (case getRemoteIp odc of
                  Inl e \<Rightarrow> (Some e, [])
                | Inr ip \<Rightarrow>
                    (let ((alias, err), sent) =
                           RegisterAlias_client srv apiClient token
                             \<lparr>dtoHost = '''', dtoDomain = name, dtoValue = ip\<rparr>
                     in case err of
                          Some e \<Rightarrow> (Some (ApiError e), sent)
                        | None \<Rightarrow> (None, sent)))))"

definition rm :: "server \<Rightarrow> OpenDYDNSCLI \<Rightarrow> string list \<Rightarrow> cli_error option \<times> Request list" where
  "rm srv odc args =
     (case args of
        [] \<Rightarrow> (Some (Errorf ''missing ALIAS''), [])
      | name # _ \<Rightarrow>
          (let apiClient = NewClient (APIAddr (conf odc)) in
           case getToken odc of
             Inl e \<Rightarrow> (Some e, [])
           | Inr token \<Rightarrow>
               (let (err, sent) = DeleteAlias_client srv apiClient token name
                in case err of
                     Some e \<Rightarrow> (Some (ApiError e), sent)
                   | None \<Rightarrow> (None, sent))))"

section \<open>The database layer (package database)\<close>

subsection \<open>Tables\<close>

text \<open>
  \<open>gorm.Model\<close> is embedded in both row types and brings the primary key \<open>ID\<close>. Its
  three timestamps are not modelled. \<open>DeletedAt\<close> makes deletion soft: a deleted row stays
  in the file but no query of this package sees it again, so a table here is the list of
  the rows that are not marked deleted, in the order of their keys, and the database keeps
  beside each table the next key to hand out (keys start at 1 and are never reused).
  \<open>User.Aliases\<close> is the association resolved through the foreign key \<open>UserID\<close>; it is
  not a column and \<open>FindUser\<close> does not load it.
  Keys are \<open>uint\<close> in Go and natural numbers here: no table comes near the end of the
  range.
\<close>

record Model =
  ID :: nat

record User = Model +
  Email :: string
  Password :: string

record Alias = Model +
  Host :: string
  Domain :: string
  Value :: string
  UserID :: nat

record DB =
  users :: "User list"
  aliases :: "Alias list"
  nextUserID :: nat
  nextAliasID :: nat

datatype db_error =
    ErrRecordNotFound
  | ErrUniqueConstraint
  | ErrMissingWhereClause
  | ErrPrimaryKeySet

text \<open>What \<open>OpenConnection\<close> yields on a new database file: both tables migrated and empty.\<close>

definition initialDB :: DB where
  "initialDB = \<lparr>users = [], aliases = [], nextUserID = 1, nextAliasID = 1\<rparr>"

subsection \<open>The methods of \<open>connection\<close>\<close>

text \<open>
  Each method takes the database and returns its Go results with the database after the
  call; \<open>Inl\<close> carries a non-nil \<open>error\<close>. The column \<open>Email\<close> is declared unique, so
  \<open>CreateUser\<close> fails on an address already present.
\<close>

definition CreateUser :: "string \<Rightarrow> string \<Rightarrow> DB \<Rightarrow> (db_error + User) \<times> DB" where
  "CreateUser email' hashedPassword db =
     (if \<exists>u \<in> set (users db). Email u = email' then (Inl ErrUniqueConstraint, db)
      else
        (let user = \<lparr>ID = nextUserID db, Email = email', Password = hashedPassword\<rparr>
         in (Inr user, db\<lparr>users := users db @ [user], nextUserID := Suc (nextUserID db)\<rparr>)))"

definition FindUser :: "string \<Rightarrow> DB \<Rightarrow> (db_error + User) \<times> DB" where
  "FindUser email' db =
     (case find (\<lambda>u. Email u = email') (users db) of
        None \<Rightarrow> (Inl ErrRecordNotFound, db)
      | Some user \<Rightarrow> (Inr user, db))"

definition FindUserAliases :: "nat \<Rightarrow> DB \<Rightarrow> (db_error + Alias list) \<times> DB" where
  "FindUserAliases userID db = (Inr (filter (\<lambda>a. UserID a = userID) (aliases db)), db)"

definition FindAlias :: "string \<Rightarrow> string \<Rightarrow> DB \<Rightarrow> (db_error + Alias) \<times> DB" where
  "FindAlias host domain db =
     (case find (\<lambda>a. Host a = host \<and> Domain a = domain) (aliases db) of
        None \<Rightarrow> (Inl ErrRecordNotFound, db)
      | Some alias \<Rightarrow> (Inr alias, db))"

text \<open>
  \<open>CreateAlias\<close> appends the row to the association of the user: the foreign key is set to
  \<open>userID\<close> and the row is inserted under a new key. Nothing is looked up first, neither
  the user nor another row with the same host and domain. The case of a row that already
  carries a key (an upsert in the library) is outside what is modelled and is an error here.
\<close>

definition CreateAlias :: "Alias \<Rightarrow> nat \<Rightarrow> DB \<Rightarrow> (db_error + Alias) \<times> DB" where
  "CreateAlias alias userID db =
     (if ID alias \<noteq> 0 then (Inl ErrPrimaryKeySet, db)
      else
        (let alias' = alias\<lparr>ID := nextAliasID db, UserID := userID\<rparr>
         in (Inr alias', db\<lparr>aliases := aliases db @ [alias'],
                              nextAliasID := Suc (nextAliasID db)\<rparr>)))"

text \<open>\<open>DeleteAlias\<close> removes the rows that match all three conditions. Matching no row is
  not an error for the library: the result is \<open>nil\<close> all the same.\<close>

definition DeleteAlias :: "string \<Rightarrow> string \<Rightarrow> nat \<Rightarrow> DB \<Rightarrow> db_error option \<times> DB" where
  "DeleteAlias host domain userID db =
     (None, db\<lparr>aliases :=
                 filter (\<lambda>a. \<not> (Host a = host \<and> Domain a = domain \<and> UserID a = userID))
                   (aliases db)\<rparr>)"

text \<open>
  \<open>UpdateAlias\<close> addresses the row by the primary key of the struct it is given and writes
  the two columns \<open>Domain\<close> and \<open>Value\<close>; \<open>Updates\<close> with a struct skips a field that holds
  the zero value, here the empty string. Without a key there is no condition and the
  library refuses the statement. No owner is compared.
\<close>

definition UpdateAlias :: "Alias \<Rightarrow> DB \<Rightarrow> (db_error + Alias) \<times> DB" where
  "UpdateAlias alias db =
     (if ID alias = 0 then (Inl ErrMissingWhereClause, db)
      else
        (Inr alias,
         db\<lparr>aliases :=
              map (\<lambda>r. if ID r = ID alias
                       then r\<lparr>Domain := (if Domain alias = '''' then Domain r else Domain alias),
                              Value := (if Value alias = '''' then Value r else Value alias)\<rparr>
                       else r)
                (aliases db)\<rparr>))"

section \<open>The core services\<close>

subsection \<open>Errors and identities\<close>

datatype error =
    InvalidCredentials
  | Unauthorized
  | Forbidden
  | NotFound
  | Conflict
  | Malformed
  | Internal

record UserIdentity =
  userId :: nat
  userEmail :: string

subsection \<open>AuthService\<close>

text \<open>
  Modelled from the spec: the daemon's \<open>Authenticate\<close> is not among the sources (only its
  caller, the handler of \<open>POST /sessions\<close>, and the \<open>FindUser\<close> it reads through are).
  Section 4.1: the user is looked up by email through the Store; an absent user and a wrong
  password give the same failure \<open>InvalidCredentials\<close>; success returns the user id and the
  email. The salted hash comparison is the parameter \<open>verify\<close>, applied to the stored hash
  and the password supplied.
\<close>

definition Authenticate ::
  "(string \<Rightarrow> string \<Rightarrow> bool) \<Rightarrow> string \<Rightarrow> string \<Rightarrow> DB \<Rightarrow> (error + UserIdentity) \<times> DB" where
  "Authenticate verify email' password db =
     (let (found, db1) = FindUser email' db in
      case found of
        Inl _ \<Rightarrow> (Inl InvalidCredentials, db1)
      | Inr user \<Rightarrow>
          if verify (Password user) password
          then (Inr \<lparr>userId = ID user, userEmail = Email user\<rparr>, db1)
          else (Inl InvalidCredentials, db1))"

subsection \<open>AliasRegistry\<close>

text \<open>
  Modelled from the spec: the daemon's alias operations are not among the sources (only the
  HTTP handlers that call them and the \<open>connection\<close> methods they call are). Section 4.4:
  \<open>List\<close> returns the aliases owned by the identity. \<open>Register\<close> fails with \<open>Conflict\<close> if
  an alias with the same host and domain exists for any owner and otherwise inserts one owned
  by the identity. \<open>Update\<close> and \<open>Delete\<close> fail with \<open>NotFound\<close> if no alias matches and
  with \<open>Forbidden\<close> if the owner of the matching alias is not the identity; on success the
  value is written in place, respectively the alias is removed. A failure of the Store
  surfaces as \<open>Internal\<close> (section 5). The lookups and writes are the methods of
  \<open>connection\<close> above.
\<close>

definition List_aliases :: "UserIdentity \<Rightarrow> DB \<Rightarrow> (error + Alias list) \<times> DB" where
  "List_aliases identity db =
     (let (found, db1) = FindUserAliases (userId identity) db in
      case found of
        Inl _ \<Rightarrow> (Inl Internal, db1)
      | Inr as \<Rightarrow> (Inr as, db1))"

definition Register ::
  "UserIdentity \<Rightarrow> string \<Rightarrow> string \<Rightarrow> string \<Rightarrow> DB \<Rightarrow> (error + Alias) \<times> DB" where
  "Register identity host domain val db =
     (let (found, db1) = FindAlias host domain db in
      case found of
        Inr _ \<Rightarrow> (Inl Conflict, db1)
      | Inl _ \<Rightarrow>
          (let (created, db2) =
                 CreateAlias \<lparr>ID = 0, Host = host, Domain = domain, Value = val, UserID = 0\<rparr>
                   (userId identity) db1
           in case created of
                Inl _ \<Rightarrow> (Inl Internal, db2)
              | Inr alias \<Rightarrow> (Inr alias, db2)))"

definition Update ::
  "UserIdentity \<Rightarrow> string \<Rightarrow> string \<Rightarrow> string \<Rightarrow> DB \<Rightarrow> (error + Alias) \<times> DB" where
  "Update identity host domain newValue db =
     (let (found, db1) = FindAlias host domain db in
      case found of
        Inl _ \<Rightarrow> (Inl NotFound, db1)
      | Inr alias \<Rightarrow>
          if UserID alias \<noteq> userId identity then (Inl Forbidden, db1)
          else
            (let (updated, db2) = UpdateAlias (alias\<lparr>Value := newValue\<rparr>) db1
             in case updated of
                  Inl _ \<Rightarrow> (Inl Internal, db2)
                | Inr alias' \<Rightarrow> (Inr alias', db2)))"

definition Delete ::
  "UserIdentity \<Rightarrow> string \<Rightarrow> string \<Rightarrow> DB \<Rightarrow> (error + unit) \<times> DB" where
  "Delete identity host domain db =
     (let (found, db1) = FindAlias host domain db in
      case found of
        Inl _ \<Rightarrow> (Inl NotFound, db1)
      | Inr alias \<Rightarrow>
          if UserID alias \<noteq> userId identity then (Inl Forbidden, db1)
          else
            (let (failed, db2) = DeleteAlias host domain (userId identity) db1
             in case failed of
                  Some _ \<Rightarrow> (Inl Internal, db2)
                | None \<Rightarrow> (Inr (), db2)))"

subsection \<open>Reachable states of the Store\<close>

text \<open>
  The states the Store can be in are the ones a sequence of calls of the services leads
  to from the empty database: \<open>run_calls verify cs\<close> is the state after the calls
  \<open>cs\<close>, the first of them made first. Users are provisioned with \<open>CreateUser\<close>.
\<close>

datatype call =
    CallCreateUser string string
  | CallAuthenticate string string
  | CallList UserIdentity
  | CallRegister UserIdentity string string string
  | CallUpdate UserIdentity string string string
  | CallDelete UserIdentity string string

fun after_call :: "(string \<Rightarrow> string \<Rightarrow> bool) \<Rightarrow> call \<Rightarrow> DB \<Rightarrow> DB" where
  "after_call verify (CallCreateUser e h) db = snd (CreateUser e h db)"
| "after_call verify (CallAuthenticate e p) db = snd (Authenticate verify e p db)"
| "after_call verify (CallList i) db = snd (List_aliases i db)"
| "after_call verify (CallRegister i h d v) db = snd (Register i h d v db)"
| "after_call verify (CallUpdate i h d v) db = snd (Update i h d v db)"
| "after_call verify (CallDelete i h d) db = snd (Delete i h d db)"

definition run_calls :: "(string \<Rightarrow> string \<Rightarrow> bool) \<Rightarrow> call list \<Rightarrow> DB" where
  "run_calls verify cs = foldl (\<lambda>db c. after_call verify c db) initialDB cs"

definition host_domain :: "Alias \<Rightarrow> string \<times> string" where
  "host_domain a = (Host a, Domain a)"

definition unique_host_domain :: "DB \<Rightarrow> bool" where
  "unique_host_domain db = distinct (map host_domain (aliases db))"

definition keys_ok :: "DB \<Rightarrow> bool" where
  "keys_ok db =
     (0 < nextAliasID db \<and> distinct (map ID (aliases db)) \<and>
      (\<forall>a \<in> set (aliases db). 0 < ID a \<and> ID a < nextAliasID db))"

definition store_inv :: "DB \<Rightarrow> bool" where
  "store_inv db = (keys_ok db \<and> unique_host_domain db)"

subsection \<open>TokenCodec\<close>

text \<open>
  Modelled from the spec: \<open>makeToken\<close> and \<open>getAuthMiddleware\<close> are not among the sources
  (only their callers \<open>authenticate\<close> and \<open>NewAPI\<close> are). Sections 3 and 4.2: a token
  holds the subject, the instant of issue, the expiry and an opaque signature. \<open>Issue\<close>
  sets the subject to the id of the identity, the instant of issue to now and the expiry to
  now plus the TTL, and signs. \<open>Validate\<close> fails with \<open>Malformed\<close> for a token that does
  not parse, with \<open>InvalidSignature\<close> when the signature does not verify, with \<open>Expired\<close>
  when now is after the expiry, in this order, and otherwise returns the embedded identity.
  An identity is a user id with an email and \<open>Validate\<close> does no I/O, so the claims carry
  the email beside the subject. Instants are seconds. The signing primitive is the parameter
  \<open>sign\<close>; with the one key the API holds for both directions, a signature verifies when
  signing the claims again gives it. A token as received is either unparsable or parsed
  into claims and signature. The three failures of the codec are diagnostics of their own
  (\<open>MalformedToken\<close> is the \<open>Malformed\<close> of section 4.2); towards a caller of the
  API each of them becomes \<open>Unauthorized\<close> (section 4.3).
\<close>

record Claims =
  subject :: nat
  subjectEmail :: string
  issuedAt :: nat
  expiry :: nat

datatype token_error =
    MalformedToken
  | InvalidSignature
  | Expired

datatype 'sig Token =
    Unparsable
  | Parsed Claims 'sig

definition Issue ::
  "(string \<Rightarrow> Claims \<Rightarrow> 'sig) \<Rightarrow> string \<Rightarrow> nat \<Rightarrow> nat \<Rightarrow> UserIdentity \<Rightarrow> 'sig Token" where
  "Issue sign key ttl now identity =
     (let claims = \<lparr>subject = userId identity, subjectEmail = userEmail identity,
                     issuedAt = now, expiry = now + ttl\<rparr>
      in Parsed claims (sign key claims))"

definition Validate ::
  "(string \<Rightarrow> Claims \<Rightarrow> 'sig) \<Rightarrow> string \<Rightarrow> nat \<Rightarrow> 'sig Token
     \<Rightarrow> token_error + UserIdentity" where
  "Validate sign key now token =
     (case token of
        Unparsable \<Rightarrow> Inl MalformedToken
      | Parsed claims sig \<Rightarrow>
          if sig \<noteq> sign key claims then Inl InvalidSignature
          else if now > expiry claims then Inl Expired
          else Inr \<lparr>userId = subject claims, userEmail = subjectEmail claims\<rparr>)"

section \<open>The REST API of the daemon (package api)\<close>

subsection \<open>Configuration, routes and the API value\<close>

text \<open>
  Package \<open>config\<close> is not among the sources: \<open>APIConfig\<close> has the fields the API reads,
  and the field \<open>SSLEnabled\<close> stands for the result of the method of that name. The echo
  instance is kept as far as \<open>NewAPI\<close> configures it: the banner flag, the two settings of
  the TLS manager and the routes (the field \<open>e\<close> of the API is \<open>echo\<close> here). A route
  records the key its auth middleware was built with, \<open>None\<close> for a route without the
  middleware. The logging middleware and the logger output are not modelled. \<open>NewAPI\<close>
  never returns an error, so the model returns the API alone.
\<close>

record APIConfig =
  SigningKey :: string
  SSLEnabled :: bool
  AutoTLS :: bool
  Hostname :: string
  CertCacheDir :: string

datatype handler =
    HAuthenticate
  | HGetAliases
  | HRegisterAlias
  | HUpdateAlias
  | HDeleteAlias
  | HGetDomains

record Route =
  routeMethod :: string
  routePath :: string
  routeHandler :: handler
  routeAuthKey :: "string option"

record Echo =
  HideBanner :: bool
  HostPolicy :: "string option"
  Cache :: "string option"
  routes :: "Route list"

record API =
  echo :: Echo
  signingKey :: string
  apiConf :: APIConfig

definition NewAPI :: "APIConfig \<Rightarrow> API" where
  "NewAPI conf' =
     (let e0 = \<lparr>HideBanner = False, HostPolicy = None, Cache = None, routes = []\<rparr>;
          e1 = (if SSLEnabled conf'
                then (if Hostname conf' \<noteq> '''' then e0\<lparr>HostPolicy := Some (Hostname conf')\<rparr>
                      else e0)\<lparr>Cache := Some (CertCacheDir conf')\<rparr>
                else e0);
          a = \<lparr>echo = e1, signingKey = SigningKey conf', apiConf = conf'\<rparr>;
          authMiddleware = Some (signingKey a)
      in a\<lparr>echo := e1\<lparr>routes :=
           [\<lparr>routeMethod = ''POST'', routePath = ''/sessions'',
              routeHandler = HAuthenticate, routeAuthKey = None\<rparr>,
            \<lparr>routeMethod = ''GET'', routePath = ''/aliases'',
              routeHandler = HGetAliases, routeAuthKey = authMiddleware\<rparr>,
            \<lparr>routeMethod = ''POST'', routePath = ''/aliases'',
              routeHandler = HRegisterAlias, routeAuthKey = authMiddleware\<rparr>,
            \<lparr>routeMethod = ''PUT'', routePath = ''/aliases'',
              routeHandler = HUpdateAlias, routeAuthKey = authMiddleware\<rparr>,
            \<lparr>routeMethod = ''DELETE'', routePath = ''/aliases/:name'',
              routeHandler = HDeleteAlias, routeAuthKey = authMiddleware\<rparr>,
            \<lparr>routeMethod = ''GET'', routePath = ''/domains'',
              routeHandler = HGetDomains, routeAuthKey = authMiddleware\<rparr>]\<rparr>\<rparr>)"

subsection \<open>What the handlers are given\<close>

text \<open>
  The daemon is an interface to the handlers; its answers are the functions of
  \<open>Daemon\<close>. \<open>Helpers\<close> holds what else a handler calls and the sources do not define:
  binding a request body to a DTO (\<open>None\<close> when \<open>c.Bind\<close> returns an error),
  \<open>makeToken\<close>, and the check the auth middleware built by \<open>getAuthMiddleware\<close> from a key
  applies to the authorization header (\<open>None\<close> when it rejects the request). A request is
  given as the framework has routed it: method, registered path, the \<open>:name\<close> parameter,
  authorization header and raw body.
\<close>

record Daemon =
  dAuthenticate :: "CredentialsDto \<Rightarrow> error + UserIdentity"
  dGetAliases :: "UserIdentity \<Rightarrow> error + AliasDto list"
  dRegisterAlias :: "UserIdentity \<Rightarrow> AliasDto \<Rightarrow> error + AliasDto"
  dUpdateAlias :: "UserIdentity \<Rightarrow> AliasDto \<Rightarrow> error + AliasDto"
  dDeleteAlias :: "UserIdentity \<Rightarrow> string \<Rightarrow> error option"
  dGetDomains :: "UserIdentity \<Rightarrow> error + string list"

record Helpers =
  bindCredentials :: "string \<Rightarrow> CredentialsDto option"
  bindAlias :: "string \<Rightarrow> AliasDto option"
  makeToken :: "UserIdentity \<Rightarrow> string \<Rightarrow> error + TokenDto"
  checkToken :: "string \<Rightarrow> string \<Rightarrow> UserIdentity option"

record HttpRequest =
  reqMethod :: string
  reqPath :: string
  reqName :: string
  reqAuthorization :: string
  reqBody :: string

text \<open>A stand-in for a collaborator that gives the same answer whatever it is asked; the
  concrete runs below are built from it.\<close>

definition always :: "'b \<Rightarrow> 'a \<Rightarrow> 'b" where
  "always v x = v"

text \<open>
  What a handler returns: a response it wrote itself, with or without a JSON body, or the
  error it got from the daemon, returned as it is to the framework. Beside the response a
  handler returns the uses of a signing key it made: the calls of \<open>makeToken\<close> and of the
  middleware's check, each with the key it was given.
\<close>

datatype json =
    JToken TokenDto
  | JAlias AliasDto
  | JAliases "AliasDto list"
  | JDomains "string list"

datatype http_result =
    NoContent nat
  | JSON nat json
  | ReturnedError error

datatype key_use =
    Issuance string UserIdentity
  | Validation string string

fun key_of :: "key_use \<Rightarrow> string" where
  "key_of (Issuance k _) = k"
| "key_of (Validation k _) = k"

subsection \<open>The handlers\<close>

definition authenticate :: "Helpers \<Rightarrow> Daemon \<Rightarrow> API \<Rightarrow> HttpRequest \<Rightarrow> http_result \<times> key_use list" where
  "authenticate h d a c =
     (case bindCredentials h (reqBody c) of
        None \<Rightarrow> (NoContent 422, [])
      | Some cred \<Rightarrow>
          (case dAuthenticate d cred of
             Inl err \<Rightarrow> (ReturnedError err, [])
           | Inr userCtx \<Rightarrow>
               (case makeToken h userCtx (signingKey a) of
                  Inl _ \<Rightarrow> (NoContent 500, [Issuance (signingKey a) userCtx])
                | Inr token \<Rightarrow> (JSON 200 (JToken token), [Issuance (signingKey a) userCtx]))))"

definition getAliases :: "Daemon \<Rightarrow> UserIdentity \<Rightarrow> http_result" where
  "getAliases d userCtx =
     (case dGetAliases d userCtx of
        Inl err \<Rightarrow> ReturnedError err
      | Inr as \<Rightarrow> JSON 200 (JAliases as))"

definition registerAlias :: "Helpers \<Rightarrow> Daemon \<Rightarrow> UserIdentity \<Rightarrow> HttpRequest \<Rightarrow> http_result" where
  "registerAlias h d userCtx c =
     (case bindAlias h (reqBody c) of
        None \<Rightarrow> NoContent 422
      | Some alias \<Rightarrow>
          (case dRegisterAlias d userCtx alias of
             Inl err \<Rightarrow> ReturnedError err
           | Inr alias' \<Rightarrow> JSON 201 (JAlias alias')))"

definition updateAlias :: "Helpers \<Rightarrow> Daemon \<Rightarrow> UserIdentity \<Rightarrow> HttpRequest \<Rightarrow> http_result" where
  "updateAlias h d userCtx c =
     (case bindAlias h (reqBody c) of
        None \<Rightarrow> NoContent 422
      | Some alias \<Rightarrow>
          (case dUpdateAlias d userCtx alias of
             Inl err \<Rightarrow> ReturnedError err
           | Inr alias' \<Rightarrow> JSON 200 (JAlias alias')))"

definition deleteAlias :: "Daemon \<Rightarrow> UserIdentity \<Rightarrow> HttpRequest \<Rightarrow> http_result" where
  "deleteAlias d userCtx c =
     (case dDeleteAlias d userCtx (reqName c) of
        Some err \<Rightarrow> ReturnedError err
      | None \<Rightarrow> NoContent 200)"

definition getDomains :: "Daemon \<Rightarrow> UserIdentity \<Rightarrow> http_result" where
  "getDomains d userCtx =
     (case dGetDomains d userCtx of
        Inl err \<Rightarrow> ReturnedError err
      | Inr ds \<Rightarrow> JSON 200 (JDomains ds))"

text \<open>
  Modelled from the spec: the status of an error a handler returns is fixed by the boundary
  layer, which is not among the sources. Sections 6 and 7: one status for each kind of
  error.
\<close>

fun error_status :: "error \<Rightarrow> nat" where
  "error_status InvalidCredentials = 401"
| "error_status Unauthorized = 401"
| "error_status Forbidden = 403"
| "error_status NotFound = 404"
| "error_status Conflict = 409"
| "error_status Malformed = 422"
| "error_status Internal = 500"

fun status :: "http_result \<Rightarrow> nat" where
  "status (NoContent n) = n"
| "status (JSON n _) = n"
| "status (ReturnedError err) = error_status err"

subsection \<open>Serving requests over the lifetime of an API value\<close>

text \<open>
  A request is served by the route registered for its method and path: the auth
  middleware of the route, if it has one, checks the authorization header with the key it
  was built with and either rejects the request or passes the identity to the handler; on
  a route without the middleware no identity is set and the handler is given the zero one.
  A request that matches no route never reaches a handler; the framework answers it.
  \<open>Start\<close> picks the listener from the configuration; \<open>Shutdown\<close> stops it. Every
  method has a pointer receiver, so each step returns the API value it leaves behind.
\<close>

definition run_handler ::
  "Helpers \<Rightarrow> Daemon \<Rightarrow> API \<Rightarrow> handler \<Rightarrow> UserIdentity \<Rightarrow> HttpRequest
     \<Rightarrow> http_result \<times> key_use list" where
  "run_handler h d a hnd userCtx c =
     (case hnd of
        HAuthenticate \<Rightarrow> authenticate h d a c
      | HGetAliases \<Rightarrow> (getAliases d userCtx, [])
      | HRegisterAlias \<Rightarrow> (registerAlias h d userCtx c, [])
      | HUpdateAlias \<Rightarrow> (updateAlias h d userCtx c, [])
      | HDeleteAlias \<Rightarrow> (deleteAlias d userCtx c, [])
      | HGetDomains \<Rightarrow> (getDomains d userCtx, []))"

definition serve :: "Helpers \<Rightarrow> Daemon \<Rightarrow> API \<Rightarrow> HttpRequest \<Rightarrow> http_result \<times> key_use list" where
  "serve h d a c =
     (case find (\<lambda>r. routeMethod r = reqMethod c \<and> routePath r = reqPath c) (routes (echo a)) of
        None \<Rightarrow> (ReturnedError NotFound, [])
      | Some r \<Rightarrow>
          (case routeAuthKey r of
             None \<Rightarrow> run_handler h d a (routeHandler r) \<lparr>userId = 0, userEmail = ''''\<rparr> c
           | Some key \<Rightarrow>
               (case checkToken h key (reqAuthorization c) of
                  None \<Rightarrow> (ReturnedError Unauthorized, [Validation key (reqAuthorization c)])
                | Some userCtx \<Rightarrow>
                    (let (res, uses) = run_handler h d a (routeHandler r) userCtx c
                     in (res, Validation key (reqAuthorization c) # uses)))))"

datatype listener =
    Listen string
  | ListenTLS string
  | ListenAutoTLS string
  | StartError string

fun split_colon :: "string \<Rightarrow> string list" where
  "split_colon [] = ['''']"
| "split_colon (c # cs) =
     (if c = CHR '':'' then '''' # split_colon cs
      else (case split_colon cs of
              [] \<Rightarrow> [c # '''']
            | p # ps \<Rightarrow> (c # p) # ps))"

definition startAutoTLS :: "API \<Rightarrow> string \<Rightarrow> listener \<times> API" where
  "startAutoTLS a address =
     (let parts = split_colon address in
      if length parts = 2 then (ListenAutoTLS (hd parts @ '':443''), a)
      else (ListenAutoTLS (address @ '':443''), a))"

definition Start :: "API \<Rightarrow> string \<Rightarrow> listener \<times> API" where
  "Start a address =
     (if SSLEnabled (apiConf a) then
        (if AutoTLS (apiConf a) then
           (if Hostname (apiConf a) = '''' then (StartError ''hostname should be configured'', a)
            else startAutoTLS a address)
         else (ListenTLS address, a))
      else (Listen address, a))"

definition Shutdown :: "API \<Rightarrow> API" where
  "Shutdown a = a"

datatype event =
    Request HttpRequest
  | Started string
  | Stopped

fun after_event :: "Helpers \<Rightarrow> Daemon \<Rightarrow> event \<Rightarrow> API \<times> key_use list \<Rightarrow> API \<times> key_use list" where
  "after_event h d (Request c) (a, uses) = (a, uses @ snd (serve h d a c))"
| "after_event h d (Started address) (a, uses) = (snd (Start a address), uses)"
| "after_event h d Stopped (a, uses) = (Shutdown a, uses)"

definition lifetime :: "Helpers \<Rightarrow> Daemon \<Rightarrow> APIConfig \<Rightarrow> event list \<Rightarrow> API \<times> key_use list" where
  "lifetime h d conf' evs = foldl (\<lambda>s ev. after_event h d ev s) (NewAPI conf', []) evs"

section \<open>Properties of the client\<close>

lemma nonNilError_zero: "nonNilError \<lparr>Message = ''''\<rparr> = None"
  by (simp add: nonNilError_def)

lemma boundError_no_target: "\<not> ErrorTarget r \<Longrightarrow> boundError r resp err = err"
  by (simp add: boundError_def split: option.splits)

text \<open>
  Claim C9. \<open>Client.DeleteAlias\<close> returns \<open>nil\<close> for every token, every alias name and
  every behaviour of the server, transport failures included: the request it builds never
  registers the \<open>ErrorDto\<close> as error target, so the value handed to \<open>nonNilError\<close> is still
  the zero value whose message is empty.
\<close>

theorem DeleteAlias_client_returns_nil:
  "fst (DeleteAlias_client srv c token name) = None"
proof -
  obtain rq resp where ex:
    "Execute srv ''DELETE'' (''/aliases/'' @ name) (SetAuthToken (Token token) (R c)) = (rq, resp)"
    by (cases "Execute srv ''DELETE'' (''/aliases/'' @ name) (SetAuthToken (Token token) (R c))")
  then have "\<not> ErrorTarget rq"
    by (auto simp: Execute_def SetAuthToken_def R_def Let_def)
  then have "boundError rq resp \<lparr>Message = ''''\<rparr> = \<lparr>Message = ''''\<rparr>"
    by (rule boundError_no_target)
  with ex show ?thesis
    by (simp add: DeleteAlias_client_def nonNilError_zero)
qed

theorem DeleteAlias_client_returns_nil_witness:
  "fst (DeleteAlias_client
          (\<lambda>rq. Some \<lparr>StatusCode = 403, RespBody = ErrorBody \<lparr>Message = ''forbidden''\<rparr>\<rparr>)
          (NewClient ''http://d'') \<lparr>Token = ''tok''\<rparr> ''home.example.org'') = None"
  using DeleteAlias_client_returns_nil
      [of "\<lambda>rq. Some \<lparr>StatusCode = 403, RespBody = ErrorBody \<lparr>Message = ''forbidden''\<rparr>\<rparr>"
          "NewClient ''http://d''" "\<lparr>Token = ''tok''\<rparr>" "''home.example.org''"]
  by simp

text \<open>
  Claim C10. Whenever the \<open>add\<close> command sends anything (an alias name was given and a
  token is configured), it sends exactly one request, the registration \<open>POST /aliases\<close>,
  whose body has the constant \<open>127.0.0.1\<close> as value, the name given on the command line
  as domain and an empty host; otherwise it sends nothing. The answer of the server plays
  no part in what is sent.
\<close>

theorem add_sends_constant_ip:
  "snd (add srv odc args) =
     (if args = [] \<or> cfgToken (conf odc) = '''' then []
      else [\<lparr>ReqMethod = ''POST'',
             ReqURL = APIAddr (conf odc) @ ''/aliases'',
             ReqAuthScheme = ''Bearer'',
             ReqAuthToken = cfgToken (conf odc),
             ReqBody = AliasBody \<lparr>dtoHost = '''', dtoDomain = hd args, dtoValue = ''127.0.0.1''\<rparr>,
             ResultTarget = True,
             ErrorTarget = True\<rparr>])"
proof (cases args)
  case Nil
  then show ?thesis by (simp add: add_def)
next
  case (Cons name rest)
  show ?thesis
  proof (cases "cfgToken (conf odc) = ''''")
    case True
    with Cons show ?thesis by (simp add: add_def getToken_def)
  next
    case False
    with Cons show ?thesis
      by (simp add: add_def getToken_def getRemoteIp_def RegisterAlias_client_def
          Execute_def SetError_def SetResult_def SetBody_def SetAuthToken_def R_def
          NewClient_def Let_def split: option.splits prod.splits)
  qed
qed

theorem add_sends_constant_ip_witness:
  "snd (add (\<lambda>rq. Some \<lparr>StatusCode = 201, RespBody = ReqBody rq\<rparr>)
          \<lparr>conf = \<lparr>APIAddr = ''http://d'', cfgToken = ''tok''\<rparr>, confPath = ''c.toml''\<rparr>
          [''home.example.org'', ''10.0.0.7'']) =
     [\<lparr>ReqMethod = ''POST'', ReqURL = ''http://d/aliases'', ReqAuthScheme = ''Bearer'',
       ReqAuthToken = ''tok'',
       ReqBody = AliasBody \<lparr>dtoHost = '''', dtoDomain = ''home.example.org'',
                             dtoValue = ''127.0.0.1''\<rparr>,
       ResultTarget = True, ErrorTarget = True\<rparr>]"
  using add_sends_constant_ip [of "\<lambda>rq. Some \<lparr>StatusCode = 201, RespBody = ReqBody rq\<rparr>"
      "\<lparr>conf = \<lparr>APIAddr = ''http://d'', cfgToken = ''tok''\<rparr>, confPath = ''c.toml''\<rparr>"
      "[''home.example.org'', ''10.0.0.7'']"]
  by simp

section \<open>Properties of the Store and of the services\<close>

subsection \<open>Lookups and the invariant of the alias table\<close>

lemma FindAlias_snd: "snd (FindAlias h d db) = db"
  by (simp add: FindAlias_def split: option.splits)

lemma find_Some_mem: "find P xs = Some x \<Longrightarrow> x \<in> set xs \<and> P x"
  by (induction xs) (auto split: if_splits)

lemma FindAlias_Inl_iff:
  "(\<exists>e. fst (FindAlias h d db) = Inl e) \<longleftrightarrow>
   (\<forall>a \<in> set (aliases db). \<not> (Host a = h \<and> Domain a = d))"
  by (auto simp: FindAlias_def find_None_iff split: option.splits dest: find_Some_mem)

lemma FindAlias_Inr:
  "fst (FindAlias h d db) = Inr a \<Longrightarrow> a \<in> set (aliases db) \<and> Host a = h \<and> Domain a = d"
  by (auto simp: FindAlias_def split: option.splits dest: find_Some_mem)

lemma unique_same:
  assumes "unique_host_domain db" "a \<in> set (aliases db)" "b \<in> set (aliases db)"
    "Host a = Host b" "Domain a = Domain b"
  shows "a = b"
proof -
  from assms(1) have "inj_on host_domain (set (aliases db))"
    by (simp add: unique_host_domain_def distinct_map)
  moreover from assms(4,5) have "host_domain a = host_domain b"
    by (simp add: host_domain_def)
  ultimately show ?thesis using assms(2,3) by (rule inj_onD)
qed

lemma keys_same:
  "keys_ok db \<Longrightarrow> a \<in> set (aliases db) \<Longrightarrow> b \<in> set (aliases db) \<Longrightarrow> ID a = ID b \<Longrightarrow> a = b"
  by (auto simp: keys_ok_def distinct_map dest: inj_onD)

lemma store_inv_initial: "store_inv initialDB"
  by (simp add: store_inv_def keys_ok_def unique_host_domain_def initialDB_def)

lemma store_inv_CreateUser: "store_inv db \<Longrightarrow> store_inv (snd (CreateUser e h db))"
  by (simp add: store_inv_def keys_ok_def unique_host_domain_def CreateUser_def Let_def)

lemma Authenticate_snd: "snd (Authenticate verify e p db) = db"
  by (simp add: Authenticate_def FindUser_def split: option.splits sum.splits prod.splits)

lemma List_aliases_snd: "snd (List_aliases i db) = db"
  by (simp add: List_aliases_def FindUserAliases_def)

lemma Register_cases:
  "Register i h d v db =
     (if \<exists>a \<in> set (aliases db). Host a = h \<and> Domain a = d then (Inl Conflict, db)
      else (let a = \<lparr>ID = nextAliasID db, Host = h, Domain = d, Value = v, UserID = userId i\<rparr>
            in (Inr a, db\<lparr>aliases := aliases db @ [a], nextAliasID := Suc (nextAliasID db)\<rparr>)))"
  by (auto simp: Register_def FindAlias_def CreateAlias_def Let_def find_None_iff
      split: option.splits dest: find_Some_mem)

lemma store_inv_Register:
  assumes "store_inv db" shows "store_inv (snd (Register i h d v db))"
proof (cases "\<exists>a \<in> set (aliases db). Host a = h \<and> Domain a = d")
  case True
  with assms show ?thesis by (simp add: Register_cases)
next
  case False
  with assms show ?thesis
    by (auto simp: Register_cases Let_def store_inv_def keys_ok_def unique_host_domain_def
        host_domain_def)
qed

lemma UpdateAlias_found_same:
  assumes "keys_ok db" "a \<in> set (aliases db)"
  shows "map host_domain (aliases (snd (UpdateAlias (a\<lparr>Value := v\<rparr>) db))) =
         map host_domain (aliases db)"
    and "map ID (aliases (snd (UpdateAlias (a\<lparr>Value := v\<rparr>) db))) = map ID (aliases db)"
    and "nextAliasID (snd (UpdateAlias (a\<lparr>Value := v\<rparr>) db)) = nextAliasID db"
proof -
  have same: "r = a" if "r \<in> set (aliases db)" "ID r = ID a" for r
    using keys_same [OF assms(1) that(1) assms(2) that(2)] .
  show "map host_domain (aliases (snd (UpdateAlias (a\<lparr>Value := v\<rparr>) db))) =
        map host_domain (aliases db)"
    by (auto simp: UpdateAlias_def host_domain_def dest: same)
  show "map ID (aliases (snd (UpdateAlias (a\<lparr>Value := v\<rparr>) db))) = map ID (aliases db)"
    by (auto simp: UpdateAlias_def)
  show "nextAliasID (snd (UpdateAlias (a\<lparr>Value := v\<rparr>) db)) = nextAliasID db"
    by (auto simp: UpdateAlias_def)
qed

lemma Update_snd:
  "snd (Update i h d v db) =
    (case fst (FindAlias h d db) of
       Inl _ \<Rightarrow> db
     | Inr a \<Rightarrow> if UserID a \<noteq> userId i then db else snd (UpdateAlias (a\<lparr>Value := v\<rparr>) db))"
  by (simp add: Update_def FindAlias_def split: option.splits sum.splits prod.splits)

lemma store_inv_Update:
  assumes "store_inv db" shows "store_inv (snd (Update i h d v db))"
proof (cases "fst (FindAlias h d db)")
  case (Inl e)
  with assms show ?thesis by (simp add: Update_snd)
next
  case (Inr a)
  then have mem: "a \<in> set (aliases db)" by (simp add: FindAlias_Inr)
  from assms have k: "keys_ok db" by (simp add: store_inv_def)
  let ?db' = "snd (UpdateAlias (a\<lparr>Value := v\<rparr>) db)"
  have "store_inv ?db'"
    using assms UpdateAlias_found_same [OF k mem, of v]
    unfolding store_inv_def keys_ok_def unique_host_domain_def
    by (metis (no_types, lifting) set_map image_iff)
  with assms Inr show ?thesis by (simp add: Update_snd)
qed

lemma Delete_snd:
  "snd (Delete i h d db) = db \<or>
   snd (Delete i h d db) =
     db\<lparr>aliases :=
          filter (\<lambda>a. \<not> (Host a = h \<and> Domain a = d \<and> UserID a = userId i)) (aliases db)\<rparr>"
  by (simp add: Delete_def FindAlias_def DeleteAlias_def
      split: option.splits sum.splits prod.splits)

lemma store_inv_filter:
  "store_inv db \<Longrightarrow> store_inv (db\<lparr>aliases := filter P (aliases db)\<rparr>)"
  by (auto simp: store_inv_def keys_ok_def unique_host_domain_def distinct_map_filter)

lemma store_inv_Delete:
  assumes "store_inv db" shows "store_inv (snd (Delete i h d db))"
proof -
  from Delete_snd [of i h d db] show ?thesis
  proof
    assume "snd (Delete i h d db) = db"
    with assms show ?thesis by simp
  next
    assume "snd (Delete i h d db) =
      db\<lparr>aliases :=
           filter (\<lambda>a. \<not> (Host a = h \<and> Domain a = d \<and> UserID a = userId i)) (aliases db)\<rparr>"
    with assms show ?thesis by (simp add: store_inv_filter)
  qed
qed

lemma store_inv_after_call: "store_inv db \<Longrightarrow> store_inv (after_call verify c db)"
  by (cases c)
    (simp_all add: store_inv_CreateUser Authenticate_snd List_aliases_snd store_inv_Register
      store_inv_Update store_inv_Delete)

lemma store_inv_foldl:
  "store_inv db \<Longrightarrow> store_inv (foldl (\<lambda>db c. after_call verify c db) db cs)"
  by (induction cs arbitrary: db) (simp_all add: store_inv_after_call)

lemma store_inv_run_calls: "store_inv (run_calls verify cs)"
  by (simp add: run_calls_def store_inv_foldl store_inv_initial)

subsection \<open>The Store primitives on their own\<close>

text \<open>
  The ownership and uniqueness checks live in the services, not in the methods of
  \<open>connection\<close>: \<open>DeleteAlias\<close> never fails and leaves rows of other owners in place,
  and \<open>CreateAlias\<close> called twice with the same host and domain stores both rows.
\<close>

lemma DeleteAlias_nil: "fst (DeleteAlias host domain userID db) = None"
  by (simp add: DeleteAlias_def)

lemma DeleteAlias_other_owner:
  "a \<in> set (aliases db) \<Longrightarrow> UserID a \<noteq> userID \<Longrightarrow>
   a \<in> set (aliases (snd (DeleteAlias host domain userID db)))"
  by (simp add: DeleteAlias_def)

lemma DeleteAlias_no_match:
  "\<forall>a \<in> set (aliases db). \<not> (Host a = host \<and> Domain a = domain \<and> UserID a = userID) \<Longrightarrow>
   snd (DeleteAlias host domain userID db) = db"
  by (simp add: DeleteAlias_def)

lemma CreateAlias_twice:
  "\<not> unique_host_domain
       (snd (CreateAlias \<lparr>ID = 0, Host = ''home'', Domain = ''example.com'', Value = ''5.6.7.8'',
                          UserID = 0\<rparr> 2
          (snd (CreateAlias \<lparr>ID = 0, Host = ''home'', Domain = ''example.com'',
                             Value = ''1.2.3.4'', UserID = 0\<rparr> 1 initialDB))))"
  by (simp add: CreateAlias_def initialDB_def unique_host_domain_def host_domain_def Let_def)

subsection \<open>Registration and the uniqueness of host and domain\<close>

text \<open>
  Claim C1. After any sequence of service calls from the empty database, no two rows of
  the alias table have the same host and domain, whoever owns them. In any state,
  \<open>Register\<close> fails with \<open>Conflict\<close> and leaves the Store as it is whenever some row,
  of any owner, has the host and domain asked for; and when \<open>Register\<close> succeeds, the
  alias returned is in the table, has the host, domain and value asked for, and is owned by
  the identity that registered it.
\<close>

theorem Register_global_uniqueness:
  "unique_host_domain (run_calls verify cs) \<and>
   ((\<exists>a \<in> set (aliases db). Host a = host \<and> Domain a = domain) \<longrightarrow>
      Register i host domain v db = (Inl Conflict, db)) \<and>
   (fst (Register i host domain v db) = Inr a' \<longrightarrow>
      UserID a' = userId i \<and> Host a' = host \<and> Domain a' = domain \<and> Value a' = v \<and>
      a' \<in> set (aliases (snd (Register i host domain v db))))"
proof (intro conjI impI)
  show "unique_host_domain (run_calls verify cs)"
    using store_inv_run_calls [of verify cs] by (simp add: store_inv_def)
next
  assume "\<exists>a \<in> set (aliases db). Host a = host \<and> Domain a = domain"
  then show "Register i host domain v db = (Inl Conflict, db)"
    by (simp add: Register_cases)
next
  assume ok: "fst (Register i host domain v db) = Inr a'"
  have absent: "\<not> (\<exists>a \<in> set (aliases db). Host a = host \<and> Domain a = domain)"
  proof
    assume "\<exists>a \<in> set (aliases db). Host a = host \<and> Domain a = domain"
    then have "fst (Register i host domain v db) = Inl Conflict"
      by (simp add: Register_cases)
    with ok show False by simp
  qed
  with ok have a': "a' = \<lparr>ID = nextAliasID db, Host = host, Domain = domain, Value = v, UserID = userId i\<rparr>"
    by (simp add: Register_cases Let_def)
  from a' show "UserID a' = userId i" by simp
  from a' show "Host a' = host" by simp
  from a' show "Domain a' = domain" by simp
  from a' show "Value a' = v" by simp
  from a' absent show "a' \<in> set (aliases (snd (Register i host domain v db)))"
    by (auto simp: Register_cases Let_def)
qed

theorem Register_global_uniqueness_witness:
  "unique_host_domain
     (run_calls (\<lambda>h p. h = p)
        [CallRegister \<lparr>userId = 1, userEmail = ''a@example.com''\<rparr> ''home'' ''example.com'' ''1.2.3.4'',
         CallRegister \<lparr>userId = 2, userEmail = ''b@example.com''\<rparr> ''home'' ''example.com'' ''5.6.7.8'']) \<and>
   (\<exists>a \<in> set (aliases
        \<lparr>users = [],
         aliases = [\<lparr>ID = 1, Host = ''home'', Domain = ''example.com'', Value = ''1.2.3.4'', UserID = 1\<rparr>],
         nextUserID = 1, nextAliasID = 2\<rparr>).
      Host a = ''home'' \<and> Domain a = ''example.com'') \<and>
   Register \<lparr>userId = 2, userEmail = ''b@example.com''\<rparr> ''home'' ''example.com'' ''5.6.7.8''
     \<lparr>users = [],
      aliases = [\<lparr>ID = 1, Host = ''home'', Domain = ''example.com'', Value = ''1.2.3.4'', UserID = 1\<rparr>],
      nextUserID = 1, nextAliasID = 2\<rparr> =
   (Inl Conflict,
     \<lparr>users = [],
      aliases = [\<lparr>ID = 1, Host = ''home'', Domain = ''example.com'', Value = ''1.2.3.4'', UserID = 1\<rparr>],
      nextUserID = 1, nextAliasID = 2\<rparr>) \<and>
   fst (Register \<lparr>userId = 1, userEmail = ''a@example.com''\<rparr> ''home'' ''example.com'' ''1.2.3.4''
          initialDB) =
     Inr \<lparr>ID = 1, Host = ''home'', Domain = ''example.com'', Value = ''1.2.3.4'', UserID = 1\<rparr> \<and>
   UserID \<lparr>ID = 1, Host = ''home'', Domain = ''example.com'', Value = ''1.2.3.4'', UserID = 1\<rparr> =
     userId \<lparr>userId = 1, userEmail = ''a@example.com''\<rparr> \<and>
   \<lparr>ID = 1, Host = ''home'', Domain = ''example.com'', Value = ''1.2.3.4'', UserID = 1\<rparr>
     \<in> set (aliases (snd (Register \<lparr>userId = 1, userEmail = ''a@example.com''\<rparr>
                                ''home'' ''example.com'' ''1.2.3.4'' initialDB)))"
proof -
  let ?A = "\<lparr>userId = 1, userEmail = ''a@example.com''\<rparr>"
  let ?B = "\<lparr>userId = 2, userEmail = ''b@example.com''\<rparr>"
  let ?row = "\<lparr>ID = 1, Host = ''home'', Domain = ''example.com'', Value = ''1.2.3.4'', UserID = 1\<rparr>"
  let ?db = "\<lparr>users = [], aliases = [?row], nextUserID = 1, nextAliasID = 2\<rparr>"
  let ?cs = "[CallRegister ?A ''home'' ''example.com'' ''1.2.3.4'',
              CallRegister ?B ''home'' ''example.com'' ''5.6.7.8'']"
  have present: "\<exists>a \<in> set (aliases ?db). Host a = ''home'' \<and> Domain a = ''example.com''"
    by simp
  have created: "fst (Register ?A ''home'' ''example.com'' ''1.2.3.4'' initialDB) = Inr ?row"
    by (simp add: Register_def FindAlias_def CreateAlias_def initialDB_def Let_def)
  note conflict = Register_global_uniqueness
    [of "\<lambda>h p. h = p" "?cs" "?db" "''home''" "''example.com''" "?B" "''5.6.7.8''" "?row"]
  note success = Register_global_uniqueness
    [of "\<lambda>h p. h = p" "?cs" initialDB "''home''" "''example.com''" "?A" "''1.2.3.4''" "?row"]
  from conflict present success created show ?thesis
    by blast
qed

subsection \<open>Update and Delete by someone else, or of nothing\<close>

text \<open>
  Claim C2. In any state reached by service calls: when an alias with the host and domain
  exists and is owned by another user, \<open>Update\<close> and \<open>Delete\<close> both fail with
  \<open>Forbidden\<close>; when no alias has the host and domain, both fail with \<open>NotFound\<close>. In
  all four cases the Store returned is the Store given.
\<close>

theorem Update_Delete_reject:
  assumes "db = run_calls verify cs"
  shows "((\<exists>a \<in> set (aliases db). Host a = host \<and> Domain a = domain \<and> UserID a \<noteq> userId i) \<longrightarrow>
            Update i host domain v db = (Inl Forbidden, db) \<and>
            Delete i host domain db = (Inl Forbidden, db)) \<and>
         ((\<forall>a \<in> set (aliases db). \<not> (Host a = host \<and> Domain a = domain)) \<longrightarrow>
            Update i host domain v db = (Inl NotFound, db) \<and>
            Delete i host domain db = (Inl NotFound, db))"
proof (intro conjI impI)
  assume "\<exists>a \<in> set (aliases db). Host a = host \<and> Domain a = domain \<and> UserID a \<noteq> userId i"
  then obtain a where a: "a \<in> set (aliases db)" "Host a = host" "Domain a = domain"
    "UserID a \<noteq> userId i" by blast
  from assms have u: "unique_host_domain db"
    using store_inv_run_calls [of verify cs] by (simp add: store_inv_def)
  from a have "\<not> (\<exists>e. fst (FindAlias host domain db) = Inl e)"
    by (auto simp: FindAlias_Inl_iff)
  then obtain b where b: "fst (FindAlias host domain db) = Inr b"
    by (cases "fst (FindAlias host domain db)") auto
  from FindAlias_Inr [OF b] a u have "b = a"
    by (auto intro: unique_same)
  with b have f: "FindAlias host domain db = (Inr a, db)"
    using FindAlias_snd [of host domain db] by (cases "FindAlias host domain db") simp
  from f a(4) show "Update i host domain v db = (Inl Forbidden, db)"
    by (simp add: Update_def)
  from f a(4) show "Delete i host domain db = (Inl Forbidden, db)"
    by (simp add: Delete_def)
next
  assume "\<forall>a \<in> set (aliases db). \<not> (Host a = host \<and> Domain a = domain)"
  then have f: "FindAlias host domain db = (Inl ErrRecordNotFound, db)"
    by (auto simp: FindAlias_def find_None_iff split: option.splits dest: find_Some_mem)
  from f show "Update i host domain v db = (Inl NotFound, db)"
    by (simp add: Update_def)
  from f show "Delete i host domain db = (Inl NotFound, db)"
    by (simp add: Delete_def)
qed

theorem Update_Delete_reject_witness:
  "\<lparr>users = [],
    aliases = [\<lparr>ID = 1, Host = ''home'', Domain = ''example.com'', Value = ''1.2.3.4'', UserID = 1\<rparr>],
    nextUserID = 1, nextAliasID = 2\<rparr> =
   run_calls (\<lambda>h p. h = p)
     [CallRegister \<lparr>userId = 1, userEmail = ''a@example.com''\<rparr> ''home'' ''example.com'' ''1.2.3.4''] \<and>
   (\<exists>a \<in> set (aliases
        \<lparr>users = [],
         aliases = [\<lparr>ID = 1, Host = ''home'', Domain = ''example.com'', Value = ''1.2.3.4'', UserID = 1\<rparr>],
         nextUserID = 1, nextAliasID = 2\<rparr>).
      Host a = ''home'' \<and> Domain a = ''example.com'' \<and>
      UserID a \<noteq> userId \<lparr>userId = 2, userEmail = ''b@example.com''\<rparr>) \<and>
   fst (Update \<lparr>userId = 2, userEmail = ''b@example.com''\<rparr> ''home'' ''example.com'' ''6.6.6.6''
     \<lparr>users = [],
      aliases = [\<lparr>ID = 1, Host = ''home'', Domain = ''example.com'', Value = ''1.2.3.4'', UserID = 1\<rparr>],
      nextUserID = 1, nextAliasID = 2\<rparr>) = Inl Forbidden \<and>
   fst (Delete \<lparr>userId = 2, userEmail = ''b@example.com''\<rparr> ''home'' ''example.com''
     \<lparr>users = [],
      aliases = [\<lparr>ID = 1, Host = ''home'', Domain = ''example.com'', Value = ''1.2.3.4'', UserID = 1\<rparr>],
      nextUserID = 1, nextAliasID = 2\<rparr>) = Inl Forbidden \<and>
   fst (Update \<lparr>userId = 2, userEmail = ''b@example.com''\<rparr> ''nas'' ''example.com'' ''6.6.6.6''
     \<lparr>users = [],
      aliases = [\<lparr>ID = 1, Host = ''home'', Domain = ''example.com'', Value = ''1.2.3.4'', UserID = 1\<rparr>],
      nextUserID = 1, nextAliasID = 2\<rparr>) = Inl NotFound \<and>
   fst (Delete \<lparr>userId = 2, userEmail = ''b@example.com''\<rparr> ''nas'' ''example.com''
     \<lparr>users = [],
      aliases = [\<lparr>ID = 1, Host = ''home'', Domain = ''example.com'', Value = ''1.2.3.4'', UserID = 1\<rparr>],
      nextUserID = 1, nextAliasID = 2\<rparr>) = Inl NotFound"
proof -
  let ?A = "\<lparr>userId = 1, userEmail = ''a@example.com''\<rparr>"
  let ?B = "\<lparr>userId = 2, userEmail = ''b@example.com''\<rparr>"
  let ?row = "\<lparr>ID = 1, Host = ''home'', Domain = ''example.com'', Value = ''1.2.3.4'', UserID = 1\<rparr>"
  let ?db = "\<lparr>users = [], aliases = [?row], nextUserID = 1, nextAliasID = 2\<rparr>"
  let ?cs = "[CallRegister ?A ''home'' ''example.com'' ''1.2.3.4'']"
  have reached: "?db = run_calls (\<lambda>h p. h = p) ?cs"
    by (simp add: run_calls_def Register_def FindAlias_def CreateAlias_def initialDB_def Let_def)
  have other: "\<exists>a \<in> set (aliases ?db).
      Host a = ''home'' \<and> Domain a = ''example.com'' \<and> UserID a \<noteq> userId ?B"
    by simp
  have none: "\<forall>a \<in> set (aliases ?db). \<not> (Host a = ''nas'' \<and> Domain a = ''example.com'')"
    by simp
  note forbidden = Update_Delete_reject [OF reached, of "''home''" "''example.com''" "?B" "''6.6.6.6''"]
  note notfound = Update_Delete_reject [OF reached, of "''nas''" "''example.com''" "?B" "''6.6.6.6''"]
  from forbidden other have f:
    "fst (Update ?B ''home'' ''example.com'' ''6.6.6.6'' ?db) = Inl Forbidden \<and>
     fst (Delete ?B ''home'' ''example.com'' ?db) = Inl Forbidden"
    by (metis fst_conv)
  from notfound none have n:
    "fst (Update ?B ''nas'' ''example.com'' ''6.6.6.6'' ?db) = Inl NotFound \<and>
     fst (Delete ?B ''nas'' ''example.com'' ?db) = Inl NotFound"
    by (metis fst_conv)
  from reached other f n show ?thesis
    by blast
qed

subsection \<open>What an update leaves alone\<close>

text \<open>
  Claim C5. A successful \<open>UpdateAlias\<close>, the one write of an update, leaves the user table
  and both key counters as they were and keeps the alias table row for row: every row keeps
  its identifier, its owner and its host, and every row whose identifier is not the one
  addressed is unchanged altogether. So only the domain and the value of the addressed alias
  can differ afterwards.
\<close>

theorem UpdateAlias_frame:
  assumes "UpdateAlias alias db = (Inr alias', db')"
  shows "users db' = users db \<and> nextUserID db' = nextUserID db \<and>
         nextAliasID db' = nextAliasID db \<and>
         length (aliases db') = length (aliases db) \<and>
         (\<forall>k < length (aliases db).
            ID (aliases db' ! k) = ID (aliases db ! k) \<and>
            UserID (aliases db' ! k) = UserID (aliases db ! k) \<and>
            Host (aliases db' ! k) = Host (aliases db ! k) \<and>
            (ID (aliases db ! k) \<noteq> ID alias \<longrightarrow> aliases db' ! k = aliases db ! k))"
  using assms by (auto simp: UpdateAlias_def split: if_splits)

theorem UpdateAlias_frame_witness:
  "UpdateAlias \<lparr>ID = 1, Host = ''home'', Domain = ''example.com'', Value = ''9.9.9.9'', UserID = 1\<rparr>
     \<lparr>users = [],
      aliases = [\<lparr>ID = 1, Host = ''home'', Domain = ''example.com'', Value = ''1.2.3.4'', UserID = 1\<rparr>,
                 \<lparr>ID = 2, Host = ''nas'', Domain = ''example.com'', Value = ''5.6.7.8'', UserID = 2\<rparr>],
      nextUserID = 1, nextAliasID = 3\<rparr> =
   (Inr \<lparr>ID = 1, Host = ''home'', Domain = ''example.com'', Value = ''9.9.9.9'', UserID = 1\<rparr>,
     \<lparr>users = [],
      aliases = [\<lparr>ID = 1, Host = ''home'', Domain = ''example.com'', Value = ''9.9.9.9'', UserID = 1\<rparr>,
                 \<lparr>ID = 2, Host = ''nas'', Domain = ''example.com'', Value = ''5.6.7.8'', UserID = 2\<rparr>],
      nextUserID = 1, nextAliasID = 3\<rparr>) \<and>
   length (aliases
     \<lparr>users = [],
      aliases = [\<lparr>ID = 1, Host = ''home'', Domain = ''example.com'', Value = ''9.9.9.9'', UserID = 1\<rparr>,
                 \<lparr>ID = 2, Host = ''nas'', Domain = ''example.com'', Value = ''5.6.7.8'', UserID = 2\<rparr>],
      nextUserID = 1, nextAliasID = 3\<rparr>) = 2"
proof -
  let ?al = "\<lparr>ID = 1, Host = ''home'', Domain = ''example.com'', Value = ''9.9.9.9'', UserID = 1\<rparr>"
  let ?r1 = "\<lparr>ID = 1, Host = ''home'', Domain = ''example.com'', Value = ''1.2.3.4'', UserID = 1\<rparr>"
  let ?r2 = "\<lparr>ID = 2, Host = ''nas'', Domain = ''example.com'', Value = ''5.6.7.8'', UserID = 2\<rparr>"
  let ?db = "\<lparr>users = [], aliases = [?r1, ?r2], nextUserID = 1, nextAliasID = 3\<rparr>"
  let ?db' = "\<lparr>users = [], aliases = [?al, ?r2], nextUserID = 1, nextAliasID = 3\<rparr>"
  have run: "UpdateAlias ?al ?db = (Inr ?al, ?db')"
    by (simp add: UpdateAlias_def)
  from UpdateAlias_frame [OF run] run show ?thesis
    by simp
qed

text \<open>The same holds for \<open>Update\<close> of the registry, which writes through
  \<open>UpdateAlias\<close> only.\<close>

lemma Update_frame:
  assumes "Update i host domain v db = (Inr alias', db')"
  shows "users db' = users db \<and> nextUserID db' = nextUserID db \<and>
         nextAliasID db' = nextAliasID db \<and>
         length (aliases db') = length (aliases db) \<and>
         (\<forall>k < length (aliases db).
            ID (aliases db' ! k) = ID (aliases db ! k) \<and>
            UserID (aliases db' ! k) = UserID (aliases db ! k) \<and>
            Host (aliases db' ! k) = Host (aliases db ! k) \<and>
            (ID (aliases db ! k) \<noteq> ID alias' \<longrightarrow> aliases db' ! k = aliases db ! k))"
  using assms
  by (auto simp: Update_def FindAlias_def UpdateAlias_def
      split: option.splits sum.splits if_splits)

subsection \<open>Authentication only reads\<close>

text \<open>
  Claim C7. \<open>Authenticate\<close> returns the Store it was given, for every email, password and
  Store and whether it succeeds or fails; so does the lookup \<open>FindUser\<close>, its only access
  to the Store.
\<close>

theorem Authenticate_no_side_effect:
  "snd (Authenticate verify email' password db) = db \<and> snd (FindUser email' db) = db"
  by (simp add: Authenticate_snd FindUser_def split: option.splits)


theorem Authenticate_no_side_effect_witness:
  "snd (Authenticate (\<lambda>h p. h = p) ''a@example.com'' ''wrong''
          \<lparr>users = [\<lparr>ID = 1, Email = ''a@example.com'', Password = ''secret''\<rparr>],
           aliases = [], nextUserID = 2, nextAliasID = 1\<rparr>) =
   \<lparr>users = [\<lparr>ID = 1, Email = ''a@example.com'', Password = ''secret''\<rparr>],
    aliases = [], nextUserID = 2, nextAliasID = 1\<rparr>"
  using Authenticate_no_side_effect [of "\<lambda>h p. h = p" "''a@example.com''" "''wrong''"
      "\<lparr>users = [\<lparr>ID = 1, Email = ''a@example.com'', Password = ''secret''\<rparr>],
        aliases = [], nextUserID = 2, nextAliasID = 1\<rparr>"]
  by simp

section \<open>Properties of the token codec\<close>

text \<open>
  Claim C3. For every identity a successful \<open>Authenticate\<close> returns, a token issued for
  it at the instant \<open>now\<close> with the TTL \<open>ttl\<close> and validated with the same key at any
  instant up to its expiry \<open>now + ttl\<close> is accepted, and the identity returned is the
  identity the token was issued for.
\<close>

theorem token_round_trip:
  assumes "fst (Authenticate verify email' password db) = Inr identity"
    and "t \<le> now + ttl"
  shows "Validate sign key t (Issue sign key ttl now identity) = Inr identity"
  using assms(2) by (simp add: Validate_def Issue_def Let_def)

theorem token_round_trip_witness:
  "fst (Authenticate (\<lambda>h p. h = p) ''a@example.com'' ''secret''
          \<lparr>users = [\<lparr>ID = 1, Email = ''a@example.com'', Password = ''secret''\<rparr>],
           aliases = [], nextUserID = 2, nextAliasID = 1\<rparr>) =
     Inr \<lparr>userId = 1, userEmail = ''a@example.com''\<rparr> \<and>
   Validate (\<lambda>k c. (k, c)) ''key'' 86500
     (Issue (\<lambda>k c. (k, c)) ''key'' 86400 100 \<lparr>userId = 1, userEmail = ''a@example.com''\<rparr>) =
     Inr \<lparr>userId = 1, userEmail = ''a@example.com''\<rparr>"
proof -
  let ?db = "\<lparr>users = [\<lparr>ID = 1, Email = ''a@example.com'', Password = ''secret''\<rparr>],
             aliases = [], nextUserID = 2, nextAliasID = 1\<rparr>"
  let ?i = "\<lparr>userId = 1, userEmail = ''a@example.com''\<rparr>"
  have login: "fst (Authenticate (\<lambda>h p. h = p) ''a@example.com'' ''secret'' ?db) = Inr ?i"
    by (simp add: Authenticate_def FindUser_def)
  have before: "(86500::nat) \<le> 100 + 86400"
    by simp
  from token_round_trip [OF login before, of "\<lambda>k c. (k, c)" "''key''"] login
  show ?thesis by simp
qed

text \<open>
  Claim C4. A token whose signature is intact fails with \<open>Expired\<close> exactly when the
  instant of validation is after its expiry, and so does a token as issued, whose expiry is
  the instant of issue plus the TTL. No token, whatever its signature, fails with
  \<open>Expired\<close> at an instant up to its expiry, nor does an unparsable one at any instant.
\<close>

theorem Validate_Expired_iff:
  "(Validate sign key t (Parsed claims (sign key claims)) = Inl Expired \<longleftrightarrow> expiry claims < t) \<and>
   (Validate sign key t (Issue sign key ttl now identity) = Inl Expired \<longleftrightarrow> now + ttl < t) \<and>
   (t \<le> expiry claims \<longrightarrow> Validate sign key t (Parsed claims sig) \<noteq> Inl Expired) \<and>
   Validate sign key t Unparsable \<noteq> Inl Expired"
  by (simp add: Validate_def Issue_def Let_def)

theorem Validate_Expired_iff_witness:
  "Validate (\<lambda>k c. (k, c)) ''key'' 86501
     (Issue (\<lambda>k c. (k, c)) ''key'' 86400 100 \<lparr>userId = 1, userEmail = ''a@example.com''\<rparr>) =
     Inl Expired \<and>
   Validate (\<lambda>k c. (k, c)) ''key'' 86500
     (Issue (\<lambda>k c. (k, c)) ''key'' 86400 100 \<lparr>userId = 1, userEmail = ''a@example.com''\<rparr>) \<noteq>
     Inl Expired \<and>
   Validate (\<lambda>k c. (k, c)) ''key'' 86500
     (Parsed \<lparr>subject = 1, subjectEmail = ''a@example.com'', issuedAt = 100, expiry = 86500\<rparr>
        (''other'', \<lparr>subject = 1, subjectEmail = ''a@example.com'', issuedAt = 100, expiry = 86500\<rparr>)) \<noteq>
     Inl Expired"
proof -
  let ?i = "\<lparr>userId = 1, userEmail = ''a@example.com''\<rparr>"
  let ?c = "\<lparr>subject = 1, subjectEmail = ''a@example.com'', issuedAt = 100, expiry = 86500\<rparr>"
  note late = Validate_Expired_iff
    [of "\<lambda>k c. (k, c)" "''key''" 86501 ?c 86400 100 ?i "(''other'', ?c)"]
  note intime = Validate_Expired_iff
    [of "\<lambda>k c. (k, c)" "''key''" 86500 ?c 86400 100 ?i "(''other'', ?c)"]
  from late intime show ?thesis by simp
qed

section \<open>Properties of the REST API\<close>

subsection \<open>The answers of \<open>POST /sessions\<close>\<close>

text \<open>
  Claim C6, as amended. \<open>POST /sessions\<close> answers 422 without a body when the request
  body cannot be bound to the credentials. When the daemon rejects the credentials the
  handler returns the daemon's error as it is, which is status 401 for
  \<open>InvalidCredentials\<close>. When the daemon accepts them, the answer is 200 with the token
  if \<open>makeToken\<close> returns one, and 500 without a body if \<open>makeToken\<close> returns an error.
\<close>

theorem authenticate_responses:
  "(bindCredentials h (reqBody c) = None \<longrightarrow> fst (authenticate h d a c) = NoContent 422) \<and>
   (bindCredentials h (reqBody c) = Some cred \<and> dAuthenticate d cred = Inl err \<longrightarrow>
      fst (authenticate h d a c) = ReturnedError err \<and>
      (err = InvalidCredentials \<longrightarrow> status (fst (authenticate h d a c)) = 401)) \<and>
   (bindCredentials h (reqBody c) = Some cred \<and> dAuthenticate d cred = Inr userCtx \<and>
    makeToken h userCtx (signingKey a) = Inr token \<longrightarrow>
      fst (authenticate h d a c) = JSON 200 (JToken token)) \<and>
   (bindCredentials h (reqBody c) = Some cred \<and> dAuthenticate d cred = Inr userCtx \<and>
    makeToken h userCtx (signingKey a) = Inl err' \<longrightarrow>
      fst (authenticate h d a c) = NoContent 500)"
  by (simp add: authenticate_def)

theorem authenticate_responses_witness:
  "fst (authenticate
     \<lparr>bindCredentials = always None, bindAlias = always None,
      makeToken = always (always (Inr \<lparr>Token = ''t''\<rparr>)), checkToken = always (always None)\<rparr>
     \<lparr>dAuthenticate = always (Inr \<lparr>userId = 1, userEmail = ''a@example.com''\<rparr>),
      dGetAliases = always (Inr []),
      dRegisterAlias = always (always (Inl Conflict)),
      dUpdateAlias = always (always (Inl NotFound)),
      dDeleteAlias = always (always None),
      dGetDomains = always (Inr [])\<rparr>
     (NewAPI \<lparr>SigningKey = ''k'', SSLEnabled = False, AutoTLS = False, Hostname = '''',
              CertCacheDir = ''''\<rparr>)
     \<lparr>reqMethod = ''POST'', reqPath = ''/sessions'', reqName = '''', reqAuthorization = '''',
      reqBody = ''{''\<rparr>) = NoContent 422 \<and>
   status (fst (authenticate
     \<lparr>bindCredentials = always (Some \<lparr>credEmail = ''a@example.com'', credPassword = ''wrong''\<rparr>),
      bindAlias = always None,
      makeToken = always (always (Inr \<lparr>Token = ''t''\<rparr>)), checkToken = always (always None)\<rparr>
     \<lparr>dAuthenticate = always (Inl InvalidCredentials),
      dGetAliases = always (Inr []),
      dRegisterAlias = always (always (Inl Conflict)),
      dUpdateAlias = always (always (Inl NotFound)),
      dDeleteAlias = always (always None),
      dGetDomains = always (Inr [])\<rparr>
     (NewAPI \<lparr>SigningKey = ''k'', SSLEnabled = False, AutoTLS = False, Hostname = '''',
              CertCacheDir = ''''\<rparr>)
     \<lparr>reqMethod = ''POST'', reqPath = ''/sessions'', reqName = '''', reqAuthorization = '''',
      reqBody = ''{}''\<rparr>)) = 401 \<and>
   fst (authenticate
     \<lparr>bindCredentials = always (Some \<lparr>credEmail = ''a@example.com'', credPassword = ''secret''\<rparr>),
      bindAlias = always None,
      makeToken = always (always (Inr \<lparr>Token = ''t''\<rparr>)), checkToken = always (always None)\<rparr>
     \<lparr>dAuthenticate = always (Inr \<lparr>userId = 1, userEmail = ''a@example.com''\<rparr>),
      dGetAliases = always (Inr []),
      dRegisterAlias = always (always (Inl Conflict)),
      dUpdateAlias = always (always (Inl NotFound)),
      dDeleteAlias = always (always None),
      dGetDomains = always (Inr [])\<rparr>
     (NewAPI \<lparr>SigningKey = ''k'', SSLEnabled = False, AutoTLS = False, Hostname = '''',
              CertCacheDir = ''''\<rparr>)
     \<lparr>reqMethod = ''POST'', reqPath = ''/sessions'', reqName = '''', reqAuthorization = '''',
      reqBody = ''{}''\<rparr>) = JSON 200 (JToken \<lparr>Token = ''t''\<rparr>) \<and>
   fst (authenticate
     \<lparr>bindCredentials = always (Some \<lparr>credEmail = ''a@example.com'', credPassword = ''secret''\<rparr>),
      bindAlias = always None,
      makeToken = always (always (Inl Internal)), checkToken = always (always None)\<rparr>
     \<lparr>dAuthenticate = always (Inr \<lparr>userId = 1, userEmail = ''a@example.com''\<rparr>),
      dGetAliases = always (Inr []),
      dRegisterAlias = always (always (Inl Conflict)),
      dUpdateAlias = always (always (Inl NotFound)),
      dDeleteAlias = always (always None),
      dGetDomains = always (Inr [])\<rparr>
     (NewAPI \<lparr>SigningKey = ''k'', SSLEnabled = False, AutoTLS = False, Hostname = '''',
              CertCacheDir = ''''\<rparr>)
     \<lparr>reqMethod = ''POST'', reqPath = ''/sessions'', reqName = '''', reqAuthorization = '''',
      reqBody = ''{}''\<rparr>) = NoContent 500"
proof -
  let ?good = "\<lparr>credEmail = ''a@example.com'', credPassword = ''secret''\<rparr>"
  let ?bad = "\<lparr>credEmail = ''a@example.com'', credPassword = ''wrong''\<rparr>"
  let ?u = "\<lparr>userId = 1, userEmail = ''a@example.com''\<rparr>"
  let ?t = "\<lparr>Token = ''t''\<rparr>"
  let ?h = "\<lambda>b m. \<lparr>bindCredentials = always b, bindAlias = always None,
                    makeToken = always (always m), checkToken = always (always None)\<rparr>"
  let ?d = "\<lambda>r. \<lparr>dAuthenticate = always r,
      dGetAliases = always (Inr []),
      dRegisterAlias = always (always (Inl Conflict)),
      dUpdateAlias = always (always (Inl NotFound)),
      dDeleteAlias = always (always None),
      dGetDomains = always (Inr [])\<rparr>"
  let ?a = "NewAPI \<lparr>SigningKey = ''k'', SSLEnabled = False, AutoTLS = False, Hostname = '''',
              CertCacheDir = ''''\<rparr>"
  let ?c = "\<lambda>b. \<lparr>reqMethod = ''POST'', reqPath = ''/sessions'', reqName = '''',
                  reqAuthorization = '''', reqBody = b\<rparr>"
  note unparsed = authenticate_responses
    [of "?h None (Inr ?t)" "?c ''{''" "?d (Inr ?u)" ?a ?good InvalidCredentials ?u ?t Internal]
  note rejected = authenticate_responses
    [of "?h (Some ?bad) (Inr ?t)" "?c ''{}''" "?d (Inl InvalidCredentials)" ?a ?bad
        InvalidCredentials ?u ?t Internal]
  note accepted = authenticate_responses
    [of "?h (Some ?good) (Inr ?t)" "?c ''{}''" "?d (Inr ?u)" ?a ?good InvalidCredentials ?u ?t
        Internal]
  note unsigned = authenticate_responses
    [of "?h (Some ?good) (Inl Internal)" "?c ''{}''" "?d (Inr ?u)" ?a ?good InvalidCredentials ?u
        ?t Internal]
  from unparsed rejected accepted unsigned show ?thesis
    by (simp add: always_def)
qed

text \<open>
  As first stated, the claim promises 200 with a token whenever authentication succeeds.
  The run below has a body that binds and credentials the daemon accepts, and
  \<open>makeToken\<close> fails: the answer is 500.
\<close>

theorem authenticate_200_counterexample:
  "bindCredentials
     \<lparr>bindCredentials = always (Some \<lparr>credEmail = ''a@example.com'', credPassword = ''secret''\<rparr>),
      bindAlias = always None,
      makeToken = always (always (Inl Internal)),
      checkToken = always (always None)\<rparr> ''{}'' =
     Some \<lparr>credEmail = ''a@example.com'', credPassword = ''secret''\<rparr> \<and>
   dAuthenticate
     \<lparr>dAuthenticate = always (Inr \<lparr>userId = 1, userEmail = ''a@example.com''\<rparr>),
      dGetAliases = always (Inr []),
      dRegisterAlias = always (always (Inl Conflict)),
      dUpdateAlias = always (always (Inl NotFound)),
      dDeleteAlias = always (always None),
      dGetDomains = always (Inr [])\<rparr>
     \<lparr>credEmail = ''a@example.com'', credPassword = ''secret''\<rparr> =
     Inr \<lparr>userId = 1, userEmail = ''a@example.com''\<rparr> \<and>
   fst (authenticate
     \<lparr>bindCredentials = always (Some \<lparr>credEmail = ''a@example.com'', credPassword = ''secret''\<rparr>),
      bindAlias = always None,
      makeToken = always (always (Inl Internal)),
      checkToken = always (always None)\<rparr>
     \<lparr>dAuthenticate = always (Inr \<lparr>userId = 1, userEmail = ''a@example.com''\<rparr>),
      dGetAliases = always (Inr []),
      dRegisterAlias = always (always (Inl Conflict)),
      dUpdateAlias = always (always (Inl NotFound)),
      dDeleteAlias = always (always None),
      dGetDomains = always (Inr [])\<rparr>
     (NewAPI \<lparr>SigningKey = ''k'', SSLEnabled = False, AutoTLS = False, Hostname = '''',
              CertCacheDir = ''''\<rparr>)
     \<lparr>reqMethod = ''POST'', reqPath = ''/sessions'', reqName = '''', reqAuthorization = '''',
      reqBody = ''{}''\<rparr>) = NoContent 500 \<and>
   status (fst (authenticate
     \<lparr>bindCredentials = always (Some \<lparr>credEmail = ''a@example.com'', credPassword = ''secret''\<rparr>),
      bindAlias = always None,
      makeToken = always (always (Inl Internal)),
      checkToken = always (always None)\<rparr>
     \<lparr>dAuthenticate = always (Inr \<lparr>userId = 1, userEmail = ''a@example.com''\<rparr>),
      dGetAliases = always (Inr []),
      dRegisterAlias = always (always (Inl Conflict)),
      dUpdateAlias = always (always (Inl NotFound)),
      dDeleteAlias = always (always None),
      dGetDomains = always (Inr [])\<rparr>
     (NewAPI \<lparr>SigningKey = ''k'', SSLEnabled = False, AutoTLS = False, Hostname = '''',
              CertCacheDir = ''''\<rparr>)
     \<lparr>reqMethod = ''POST'', reqPath = ''/sessions'', reqName = '''', reqAuthorization = '''',
      reqBody = ''{}''\<rparr>)) \<noteq> 200"
  by (simp add: authenticate_def always_def)

subsection \<open>One signing key for the lifetime of the API\<close>

lemma NewAPI_signingKey: "signingKey (NewAPI conf') = SigningKey conf'"
  by (simp add: NewAPI_def Let_def)

lemma NewAPI_route_keys:
  "r \<in> set (routes (echo (NewAPI conf'))) \<Longrightarrow>
   routeAuthKey r = None \<or> routeAuthKey r = Some (SigningKey conf')"
  by (auto simp: NewAPI_def Let_def)

lemma authenticate_keys:
  "u \<in> set (snd (authenticate h d a c)) \<Longrightarrow> key_of u = signingKey a"
  by (auto simp: authenticate_def split: option.splits sum.splits)

lemma run_handler_keys:
  "u \<in> set (snd (run_handler h d a hnd userCtx c)) \<Longrightarrow> key_of u = signingKey a"
  by (cases hnd) (auto simp: run_handler_def dest: authenticate_keys)

lemma serve_keys:
  assumes "u \<in> set (snd (serve h d (NewAPI conf') c))"
  shows "key_of u = SigningKey conf'"
proof (cases "find (\<lambda>r. routeMethod r = reqMethod c \<and> routePath r = reqPath c)
                (routes (echo (NewAPI conf')))")
  case None
  with assms show ?thesis by (simp add: serve_def)
next
  case (Some r)
  then have "r \<in> set (routes (echo (NewAPI conf')))"
    by (simp add: find_Some_mem)
  then have key: "routeAuthKey r = None \<or> routeAuthKey r = Some (SigningKey conf')"
    by (rule NewAPI_route_keys)
  show ?thesis
  proof (cases "routeAuthKey r")
    case None
    with Some assms have "u \<in> set (snd (run_handler h d (NewAPI conf') (routeHandler r)
                                        \<lparr>userId = 0, userEmail = ''''\<rparr> c))"
      by (simp add: serve_def)
    then show ?thesis by (simp add: run_handler_keys NewAPI_signingKey)
  next
    case (Some k)
    with key have k: "k = SigningKey conf'" by simp
    show ?thesis
    proof (cases "checkToken h k (reqAuthorization c)")
      case None
      with \<open>find _ _ = Some r\<close> \<open>routeAuthKey r = Some k\<close> assms k show ?thesis
        by (simp add: serve_def)
    next
      case (Some userCtx)
      with \<open>find _ _ = Some r\<close> \<open>routeAuthKey r = Some k\<close> assms
      have "u = Validation k (reqAuthorization c) \<or>
            u \<in> set (snd (run_handler h d (NewAPI conf') (routeHandler r) userCtx c))"
        by (auto simp: serve_def split: prod.splits)
      with k show ?thesis
        by (auto simp: run_handler_keys NewAPI_signingKey)
    qed
  qed
qed

lemma Start_api: "snd (Start a address) = a"
  by (simp add: Start_def startAutoTLS_def Let_def)

lemma after_event_inv:
  assumes "fst s = NewAPI conf'" "\<forall>u \<in> set (snd s). key_of u = SigningKey conf'"
  shows "fst (after_event h d ev s) = NewAPI conf' \<and>
         (\<forall>u \<in> set (snd (after_event h d ev s)). key_of u = SigningKey conf')"
proof (cases s)
  case (Pair a uses)
  with assms show ?thesis
    by (cases ev) (auto simp: Start_api Shutdown_def dest: serve_keys)
qed

lemma lifetime_inv:
  assumes "fst s = NewAPI conf'" "\<forall>u \<in> set (snd s). key_of u = SigningKey conf'"
  shows "fst (foldl (\<lambda>s ev. after_event h d ev s) s evs) = NewAPI conf' \<and>
         (\<forall>u \<in> set (snd (foldl (\<lambda>s ev. after_event h d ev s) s evs)). key_of u = SigningKey conf')"
  using assms
proof (induction evs arbitrary: s)
  case Nil
  then show ?case by simp
next
  case (Cons ev evs)
  from after_event_inv [OF Cons.prems, of h d ev]
  have step: "fst (after_event h d ev s) = NewAPI conf'"
    "\<forall>u \<in> set (snd (after_event h d ev s)). key_of u = SigningKey conf'"
    by simp_all
  from Cons.IH [OF step] show ?case by simp
qed

text \<open>
  Claim C8. Take the API built by \<open>NewAPI\<close> from a configuration and let it go through
  any sequence of requests served, starts and shutdowns. The signing key it holds at the
  end is the key of the configuration, and every use of a key on the way, each call of
  \<open>makeToken\<close> and each check of a token by the auth middleware, was made with that key.
\<close>

theorem signing_key_fixed:
  "signingKey (fst (lifetime h d conf' evs)) = SigningKey conf' \<and>
   (\<forall>u \<in> set (snd (lifetime h d conf' evs)). key_of u = SigningKey conf')"
  using lifetime_inv [of "(NewAPI conf', [])" conf' h d evs]
  by (simp add: lifetime_def NewAPI_signingKey)

theorem signing_key_fixed_witness:
  "snd (lifetime
     \<lparr>bindCredentials = always (Some \<lparr>credEmail = ''a@example.com'', credPassword = ''secret''\<rparr>),
      bindAlias = always None,
      makeToken = always (always (Inr \<lparr>Token = ''t''\<rparr>)),
      checkToken = always (always (Some \<lparr>userId = 1, userEmail = ''a@example.com''\<rparr>))\<rparr>
     \<lparr>dAuthenticate = always (Inr \<lparr>userId = 1, userEmail = ''a@example.com''\<rparr>),
      dGetAliases = always (Inr []),
      dRegisterAlias = always (always (Inl Conflict)),
      dUpdateAlias = always (always (Inl NotFound)),
      dDeleteAlias = always (always None),
      dGetDomains = always (Inr [])\<rparr>
     \<lparr>SigningKey = ''k'', SSLEnabled = False, AutoTLS = False, Hostname = '''', CertCacheDir = ''''\<rparr>
     [Started '':8080'',
      Request \<lparr>reqMethod = ''POST'', reqPath = ''/sessions'', reqName = '''',
               reqAuthorization = '''', reqBody = ''{}''\<rparr>,
      Request \<lparr>reqMethod = ''GET'', reqPath = ''/aliases'', reqName = '''',
               reqAuthorization = ''Bearer t'', reqBody = ''''\<rparr>,
      Stopped]) =
   [Issuance ''k'' \<lparr>userId = 1, userEmail = ''a@example.com''\<rparr>, Validation ''k'' ''Bearer t''] \<and>
   signingKey (fst (lifetime
     \<lparr>bindCredentials = always (Some \<lparr>credEmail = ''a@example.com'', credPassword = ''secret''\<rparr>),
      bindAlias = always None,
      makeToken = always (always (Inr \<lparr>Token = ''t''\<rparr>)),
      checkToken = always (always (Some \<lparr>userId = 1, userEmail = ''a@example.com''\<rparr>))\<rparr>
     \<lparr>dAuthenticate = always (Inr \<lparr>userId = 1, userEmail = ''a@example.com''\<rparr>),
      dGetAliases = always (Inr []),
      dRegisterAlias = always (always (Inl Conflict)),
      dUpdateAlias = always (always (Inl NotFound)),
      dDeleteAlias = always (always None),
      dGetDomains = always (Inr [])\<rparr>
     \<lparr>SigningKey = ''k'', SSLEnabled = False, AutoTLS = False, Hostname = '''', CertCacheDir = ''''\<rparr>
     [Started '':8080'',
      Request \<lparr>reqMethod = ''POST'', reqPath = ''/sessions'', reqName = '''',
               reqAuthorization = '''', reqBody = ''{}''\<rparr>,
      Request \<lparr>reqMethod = ''GET'', reqPath = ''/aliases'', reqName = '''',
               reqAuthorization = ''Bearer t'', reqBody = ''''\<rparr>,
      Stopped])) = ''k''"
proof -
  let ?u = "\<lparr>userId = 1, userEmail = ''a@example.com''\<rparr>"
  let ?h = "\<lparr>bindCredentials = always (Some \<lparr>credEmail = ''a@example.com'', credPassword = ''secret''\<rparr>),
      bindAlias = always None,
      makeToken = always (always (Inr \<lparr>Token = ''t''\<rparr>)),
      checkToken = always (always (Some ?u))\<rparr>"
  let ?d = "\<lparr>dAuthenticate = always (Inr ?u),
      dGetAliases = always (Inr []),
      dRegisterAlias = always (always (Inl Conflict)),
      dUpdateAlias = always (always (Inl NotFound)),
      dDeleteAlias = always (always None),
      dGetDomains = always (Inr [])\<rparr>"
  let ?conf = "\<lparr>SigningKey = ''k'', SSLEnabled = False, AutoTLS = False, Hostname = '''',
               CertCacheDir = ''''\<rparr>"
  let ?evs = "[Started '':8080'',
      Request \<lparr>reqMethod = ''POST'', reqPath = ''/sessions'', reqName = '''',
               reqAuthorization = '''', reqBody = ''{}''\<rparr>,
      Request \<lparr>reqMethod = ''GET'', reqPath = ''/aliases'', reqName = '''',
               reqAuthorization = ''Bearer t'', reqBody = ''''\<rparr>,
      Stopped]"
  have uses: "snd (lifetime ?h ?d ?conf ?evs) = [Issuance ''k'' ?u, Validation ''k'' ''Bearer t'']"
    by (simp add: lifetime_def Start_def Shutdown_def serve_def NewAPI_def run_handler_def
        authenticate_def getAliases_def always_def Let_def)
  from signing_key_fixed [of ?h ?d ?conf ?evs] uses show ?thesis
    by simp
qed

end
